theory Spec2Isabelle
  imports Main "HOL-Library.Word"
begin

unbundle bit_operations_syntax

section \<open>C strings and argument lists\<close>

text \<open>
  A C string is modelled by the list of its bytes before the terminating NUL.  A
  NULL-terminated variadic argument list (\<open>append\<close>, \<open>appendraw\<close>, \<open>strcatv\<close>) is a list
  of \<open>string option\<close>: \<open>None\<close> is a NULL pointer passed as an argument, which ends the
  processing exactly like the final NULL does; the end of the list is that final NULL.
  A \<open>const char*\<close> variable that may be NULL is a \<open>string option\<close>.
\<close>

abbreviation NUL :: char where "NUL \<equiv> CHR 0x00"
abbreviation BEL :: char where "BEL \<equiv> CHR 0x07"
abbreviation TAB :: char where "TAB \<equiv> CHR 0x09"
abbreviation LF :: char where "LF \<equiv> CHR 0x0A"
abbreviation ESC :: char where "ESC \<equiv> CHR 0x1B"
abbreviation BSL :: char where "BSL \<equiv> CHR 0x5C"

definition cstr :: "char list \<Rightarrow> string" where
  "cstr bytes = takeWhile (\<lambda>c. c \<noteq> NUL) bytes"

text \<open>\<open>strcatv(dst, ...)\<close> (lines 79 to 95): the string left in \<open>dst\<close>.  The capacity of
  \<open>dst\<close> is not tracked: \<open>tpath\<close> and \<open>tmp1\<close> to \<open>tmp4\<close> are handled as string values.\<close>

fun strcatv :: "string option list \<Rightarrow> string" where
  "strcatv [] = []"
| "strcatv (None # rest) = []"
| "strcatv (Some src # rest) = src @ strcatv rest"

section \<open>The prompt buffer: \<open>append\<close>, \<open>appendraw\<close>, \<open>section\<close>\<close>

text \<open>
  \<open>static char prompt[4096]; static char* current = prompt; static int remaining = sizeof prompt;\<close>
  The field \<open>stored\<close> lists every byte written through \<open>current\<close>, in order, so that
  \<open>current = prompt + length stored\<close>; a byte at an offset of 4096 or more lies outside
  the array.  \<open>remaining\<close> is the C \<open>int\<close>, read as a mathematical integer.
\<close>

definition prompt_size :: nat where
  "prompt_size = 4096"

record pstate =
  stored :: "char list"
  remaining :: int
  lastbg :: "string option"

definition initial :: pstate where
  "initial = \<lparr>stored = [], remaining = int prompt_size, lastbg = None\<rparr>"

text \<open>The inner loop of \<open>append\<close> (lines 37 to 45) on one fragment.\<close>

fun append_loop :: "pstate \<Rightarrow> string \<Rightarrow> pstate" where
  "append_loop st [] = st"
| "append_loop st (c # cs) =
     (if remaining st = 0 then st
      else if c = CHR ''$'' \<or> c = BSL
        then append_loop (st\<lparr>stored := stored st @ [BSL, c], remaining := remaining st - 2\<rparr>) cs
        else append_loop (st\<lparr>stored := stored st @ [c], remaining := remaining st - 1\<rparr>) cs)"

text \<open>The inner loop of \<open>appendraw\<close> (lines 55 to 58) on one fragment.\<close>

fun appendraw_loop :: "pstate \<Rightarrow> string \<Rightarrow> pstate" where
  "appendraw_loop st [] = st"
| "appendraw_loop st (c # cs) =
     (if remaining st = 0 then st
      else appendraw_loop (st\<lparr>stored := stored st @ [c], remaining := remaining st - 1\<rparr>) cs)"

text \<open>The outer loops: \<open>while(src) { ...; src = va_arg(ap, char*); }\<close>.\<close>

fun append :: "pstate \<Rightarrow> string option list \<Rightarrow> pstate" where
  "append st [] = st"
| "append st (None # rest) = st"
| "append st (Some src # rest) = append (append_loop st src) rest"

fun appendraw :: "pstate \<Rightarrow> string option list \<Rightarrow> pstate" where
  "appendraw st [] = st"
| "appendraw st (None # rest) = st"
| "appendraw st (Some src # rest) = appendraw (appendraw_loop st src) rest"

text \<open>The state is within the array when the counter is not negative and agrees with the
  cursor, so that at most 4096 bytes were stored.\<close>

definition in_buffer :: "pstate \<Rightarrow> bool" where
  "in_buffer st = (0 \<le> remaining st \<and> int (length (stored st)) + remaining st = int prompt_size)"

text \<open>\<open>section(fg, bg)\<close> (lines 64 to 77), named \<open>section_c\<close> here.  The separator glyph
  U+E0B0 is three bytes of UTF-8.\<close>

definition csi_fg :: string where
  "csi_fg = BSL # CHR ''['' # ESC # ''[38;5;''"

definition csi_bg :: string where
  "csi_bg = CHR ''m'' # ESC # ''[48;5;''"

definition csi_end :: string where
  "csi_end = [CHR ''m'', BSL, CHR '']'']"

definition separator :: string where
  "separator = [CHR 0xEE, CHR 0x82, CHR 0xB0, CHR '' '']"

definition section_c :: "pstate \<Rightarrow> string \<Rightarrow> string \<Rightarrow> pstate" where
  "section_c st fg bg =
     (case lastbg st of
        Some lbg \<Rightarrow>
          appendraw st [Some '' '', Some csi_fg, Some lbg, Some csi_bg, Some bg, Some csi_end,
                        Some separator, Some csi_fg, Some fg, Some csi_end]
      | None \<Rightarrow> appendraw st [Some csi_fg, Some fg, Some csi_bg, Some bg, Some csi_end])
     \<lparr>lastbg := Some bg\<rparr>"

text \<open>\<open>prompt_data\<close> (lines 12 to 18) and \<open>title_section\<close> (lines 175 to 179).  \<open>user\<close>
  and \<open>cwd\<close> come from \<open>getenv\<close> and may be NULL.\<close>

record prompt_data =
  user :: "string option"
  host :: "string option"
  pwd :: "string option"
  cwd :: "string option"
  error :: bool

definition title_section :: "pstate \<Rightarrow> prompt_data \<Rightarrow> pstate" where
  "title_section st data =
     appendraw
       (append (appendraw st [Some (BSL # CHR ''['' # ESC # '']0;'')])
               [user data, Some ''@'', host data, Some '':'', cwd data])
       [Some [BEL, BSL, CHR '']'']]"

section \<open>The environment: child processes and the file system\<close>

type_synonym cmd = "string list"

text \<open>
  What happens when \<open>readp\<close> spawns a command: \<open>NoChild\<close>, \<open>pipe\<close> or \<open>fork\<close> failed;
  \<open>NoExec\<close>, the child was forked and \<open>execvp\<close> failed in it (missing executable), so the
  child runs \<open>exit(1)\<close> of line 109; \<open>Child ws out\<close>, the command ran, wrote \<open>out\<close> to
  its standard output, and \<open>waitpid\<close> stored the wait status \<open>ws\<close>.
\<close>

datatype spawn = NoChild | NoExec | Child "32 word" string

datatype kind = Dir | Reg | Lnk | Other

text \<open>
  \<open>run\<close> answers a spawned command; \<open>lstat\<close> is \<open>None\<close> when \<open>lstat\<close> fails; \<open>content\<close> is
  \<open>None\<close> when \<open>open(path, O_RDONLY)\<close> fails and the bytes of the file otherwise; one
  \<open>read\<close> transfers at most \<open>Suc (chunk w)\<close> bytes; \<open>rpbuf0\<close> and \<open>tmp0\<close> are the bytes that
  the uninitialised arrays \<open>rpbuf\<close> and \<open>tmp\<close> of \<open>git_section\<close> hold on entry.
\<close>

record world =
  run :: "cmd \<Rightarrow> spawn"
  lstat :: "string \<Rightarrow> kind option"
  content :: "string \<Rightarrow> string option"
  chunk :: nat
  rpbuf0 :: "nat \<Rightarrow> char"
  tmp0 :: "nat \<Rightarrow> char"

datatype event = Exec cmd | Lstat string | Open string

text \<open>The macros of \<open><sys/wait.h>\<close>, as glibc defines them.\<close>

definition WIFEXITED :: "32 word \<Rightarrow> bool" where
  "WIFEXITED ws = (ws AND 0x7f = 0)"

definition WEXITSTATUS :: "32 word \<Rightarrow> int" where
  "WEXITSTATUS ws = uint (drop_bit 8 (ws AND 0xff00))"

text \<open>
  \<open>read(fd, p, r)\<close> on a stream with the bytes \<open>stream\<close> left: the number of bytes
  transferred, which is 0 at the end of the stream.  The \<open>int\<close> counter \<open>r\<close> is converted
  to \<open>size_t\<close>; for a negative \<open>r\<close> that count exceeds \<open>SSIZE_MAX\<close> and Linux fails the
  call, so nothing is transferred and the result, not being positive, ends the loop.
  The sizes passed in this program are 256 and 254, so \<open>int\<close> arithmetic on \<open>r\<close> is exact.
\<close>

definition sys_read :: "nat \<Rightarrow> string \<Rightarrow> int \<Rightarrow> nat" where
  "sys_read k stream r = min (Suc k) (min (length stream) (nat r))"

text \<open>The loop of \<open>readp\<close> (lines 114 to 117): the bytes stored from \<open>buf\<close> on.\<close>

function read_pipe :: "nat \<Rightarrow> string \<Rightarrow> int \<Rightarrow> string" where
  "read_pipe k stream r =
     (if r > 0 \<and> sys_read k stream r > 0
      then take (sys_read k stream r) stream
           @ read_pipe k (drop (sys_read k stream r) stream) (r - int (sys_read k stream r))
      else [])"
  by pat_completeness auto
termination
  by (relation "measure (\<lambda>(k, stream, r). length stream)") (auto simp: sys_read_def)

text \<open>The loop of \<open>readf\<close> (lines 137 to 140), which does not test \<open>r\<close>.\<close>

function read_file :: "nat \<Rightarrow> string \<Rightarrow> int \<Rightarrow> string" where
  "read_file k stream r =
     (if sys_read k stream r > 0
      then take (sys_read k stream r) stream
           @ read_file k (drop (sys_read k stream r) stream) (r - int (sys_read k stream r))
      else [])"
  by pat_completeness auto
termination
  by (relation "measure (\<lambda>(k, stream, r). length stream)") (auto simp: sys_read_def)

text \<open>
  The parent branch of \<open>readp\<close> (lines 112 to 122) and its return value (line 127):
  the exit status and the bytes that precede the terminator of line 126.
\<close>

definition readp_parent :: "nat \<Rightarrow> bool \<Rightarrow> nat \<Rightarrow> 32 word \<Rightarrow> string \<Rightarrow> int \<times> string" where
  "readp_parent k single sz ws out =
     (let got = read_pipe k out (int sz - 1)
      in (if WIFEXITED ws then WEXITSTATUS ws else - 1,
          if single \<and> got \<noteq> [] then butlast got else got))"

text \<open>\<open>readp(cmd, single, buf, size)\<close> (lines 97 to 128).  When no child exists,
  \<open>wstatus\<close> keeps its initial 0 and nothing is stored.\<close>

definition readp :: "world \<Rightarrow> cmd \<Rightarrow> bool \<Rightarrow> nat \<Rightarrow> int \<times> string" where
  "readp w cmd single sz =
     (case run w cmd of
        NoChild \<Rightarrow> (if WIFEXITED 0 then WEXITSTATUS 0 else - 1, [])
      | NoExec \<Rightarrow> readp_parent (chunk w) single sz (push_bit 8 1) []
      | Child ws out \<Rightarrow> readp_parent (chunk w) single sz ws out)"

text \<open>\<open>readf(path, buf, size)\<close> (lines 130 to 149): the bytes that precede the terminator
  of line 147, and the C string that the caller reads.\<close>

definition readf_bytes :: "world \<Rightarrow> string \<Rightarrow> nat \<Rightarrow> string" where
  "readf_bytes w path sz =
     (case content w path of
        None \<Rightarrow> []
      | Some bytes \<Rightarrow>
          (let got = read_file (chunk w) bytes (int sz - 1)
           in if got \<noteq> [] then butlast got else got))"

definition readf :: "world \<Rightarrow> string \<Rightarrow> nat \<Rightarrow> string" where
  "readf w path sz = cstr (readf_bytes w path sz)"

definition isdir :: "world \<Rightarrow> string \<Rightarrow> bool" where
  "isdir w path = (lstat w path = Some Dir)"

definition isreg :: "world \<Rightarrow> string \<Rightarrow> bool" where
  "isreg w path = (lstat w path = Some Reg)"

definition islnk :: "world \<Rightarrow> string \<Rightarrow> bool" where
  "islnk w path = (lstat w path = Some Lnk)"

section \<open>Arrays and \<open>split\<close>\<close>

text \<open>
  \<open>rpbuf\<close> and \<open>tmp\<close>, which \<open>split\<close> walks and writes, are modelled as arrays: the list of
  their 256 bytes.  A pointer into an array is its offset.  \<open>store\<close> is what \<open>readp\<close>
  leaves in the array: the bytes read, the terminator, and the old bytes behind it.
\<close>

definition array256 :: "(nat \<Rightarrow> char) \<Rightarrow> char list" where
  "array256 f = map f [0..<256]"

definition store :: "char list \<Rightarrow> char list \<Rightarrow> char list" where
  "store buf bytes = bytes @ NUL # drop (Suc (length bytes)) buf"

definition cstr_at :: "char list \<Rightarrow> nat \<Rightarrow> string" where
  "cstr_at buf p = cstr (drop p buf)"

text \<open>The loop of \<open>split\<close> (lines 153 and 154): the offset where it stops, or \<open>None\<close>
  when it reads \<open>**next\<close> outside the array.\<close>

function scan :: "char list \<Rightarrow> nat \<Rightarrow> char \<Rightarrow> nat option" where
  "scan buf i sep =
     (if i < length buf
      then (if buf ! i \<noteq> NUL \<and> buf ! i \<noteq> sep then scan buf (Suc i) sep else Some i)
      else None)"
  by pat_completeness auto
termination
  by (relation "measure (\<lambda>(buf, i, sep). length buf - i)") auto

text \<open>\<open>split(&next, sep)\<close> (lines 151 to 158): the array after the write of line 155, the
  returned pointer and the new value of \<open>next\<close>; \<open>None\<close> when the array is left.\<close>

definition split :: "char list \<Rightarrow> nat \<Rightarrow> char \<Rightarrow> (char list \<times> nat \<times> nat) option" where
  "split buf nxt sep =
     (case scan buf nxt sep of
        None \<Rightarrow> None
      | Some j \<Rightarrow> Some (buf[j := NUL], nxt, Suc j))"

section \<open>The git commands (lines 20 to 26)\<close>

definition rev_parse :: cmd where
  "rev_parse = [''git'', ''rev-parse'', ''--git-dir'', ''--is-inside-git-dir'',
                ''--is-bare-repository'', ''--is-inside-work-tree'', ''--short'', ''HEAD'']"

definition diff :: cmd where
  "diff = [''git'', ''diff'', ''--no-ext-diff'', ''--quiet'']"

definition diff_cached :: cmd where
  "diff_cached = [''git'', ''diff'', ''--no-ext-diff'', ''--quiet'', ''--cached'']"

definition check_stash :: cmd where
  "check_stash = [''git'', ''rev-parse'', ''--verify'', ''--quiet'', ''refs/stash'']"

definition read_head :: cmd where
  "read_head = [''git'', ''symbolic-ref'', ''HEAD'']"

definition describe :: cmd where
  "describe = [''git'', ''describe'', ''--contains'', ''--all'', ''HEAD'']"

definition upstream :: cmd where
  "upstream = [''git'', ''rev-list'', ''--count'', ''--left-right'',
               CHR 0x40 # ''{upstream}...HEAD'']"

section \<open>\<open>git_section\<close>: locating the repository (lines 233 to 242)\<close>

text \<open>
  The four or five \<open>split\<close> calls on \<open>rpbuf\<close>.  The pointers \<open>git\<close>, \<open>inside\<close>, \<open>bare\<close>,
  \<open>intree\<close> and \<open>ssha\<close> are read as C strings in the array as the last call leaves it.
  \<open>None\<close>: a call left the array.
\<close>

record located =
  f_git :: string
  f_inside :: string
  f_bare :: string
  f_intree :: string
  f_ssha :: "string option"

definition locate :: "char list \<Rightarrow> int \<Rightarrow> located option" where
  "locate rpbuf status =
     (case split rpbuf 0 LF of None \<Rightarrow> None | Some (m1, git, n1) \<Rightarrow>
      (case split m1 n1 LF of None \<Rightarrow> None | Some (m2, inside, n2) \<Rightarrow>
      (case split m2 n2 LF of None \<Rightarrow> None | Some (m3, bare, n3) \<Rightarrow>
      (case split m3 n3 LF of None \<Rightarrow> None | Some (m4, intree, n4) \<Rightarrow>
      (if status = 0
       then (case split m4 n4 LF of None \<Rightarrow> None | Some (m5, ssha, n5) \<Rightarrow>
               Some \<lparr>f_git = cstr_at m5 git, f_inside = cstr_at m5 inside,
                     f_bare = cstr_at m5 bare, f_intree = cstr_at m5 intree,
                     f_ssha = Some (cstr_at m5 ssha)\<rparr>)
       else Some \<lparr>f_git = cstr_at m4 git, f_inside = cstr_at m4 inside,
                  f_bare = cstr_at m4 bare, f_intree = cstr_at m4 intree,
                  f_ssha = None\<rparr>)))))"

section \<open>\<open>git_section\<close>: operation in progress and head label (lines 243 to 304)\<close>

text \<open>The variables \<open>b\<close>, \<open>r\<close>, \<open>step\<close>, \<open>total\<close> and \<open>detached\<close>.\<close>

record opvars =
  v_b :: "string option"
  v_r :: "string option"
  v_step :: "string option"
  v_total :: "string option"
  v_detached :: bool

definition no_op :: opvars where
  "no_op = \<lparr>v_b = None, v_r = None, v_step = None, v_total = None, v_detached = False\<rparr>"

text \<open>\<open>strcatv(tpath, git, suffix, NULL)\<close>.\<close>

definition tpath :: "string \<Rightarrow> string \<Rightarrow> string" where
  "tpath git suffix = strcatv [Some git, Some suffix]"

text \<open>Lines 247 to 249, the branch of the \<open>rebase-merge\<close> directory.\<close>

definition rebase_merge :: "world \<Rightarrow> string \<Rightarrow> opvars \<times> event list" where
  "rebase_merge w git =
     (no_op\<lparr>v_b := Some (readf w (tpath git ''/rebase-merge/head-name'') 256),
            v_step := Some (readf w (tpath git ''/rebase-merge/msgnum'') 256),
            v_total := Some (readf w (tpath git ''/rebase-merge/end'') 256)\<rparr>,
      [Open (tpath git ''/rebase-merge/head-name''), Open (tpath git ''/rebase-merge/msgnum''),
       Open (tpath git ''/rebase-merge/end'')])"

text \<open>Lines 252 to 261, the branch of the \<open>rebase-apply\<close> directory.\<close>

definition rebase_apply :: "world \<Rightarrow> string \<Rightarrow> opvars \<times> event list" where
  "rebase_apply w git =
     (let v = no_op\<lparr>v_step := Some (readf w (tpath git ''/rebase-apply/next'') 256),
                    v_total := Some (readf w (tpath git ''/rebase-apply/last'') 256)\<rparr>;
          ev = [Open (tpath git ''/rebase-apply/next''), Open (tpath git ''/rebase-apply/last''),
                Lstat (tpath git ''/rebase-apply/rebasing'')]
      in if isreg w (tpath git ''/rebase-apply/rebasing'')
         then (v\<lparr>v_b := Some (readf w (tpath git ''/rebase-apply/head-name'') 256),
                 v_r := Some ''|REBASE''\<rparr>,
               ev @ [Open (tpath git ''/rebase-apply/head-name'')])
         else if isreg w (tpath git ''/rebase-apply/applying'')
         then (v\<lparr>v_r := Some ''|AM''\<rparr>, ev @ [Lstat (tpath git ''/rebase-apply/applying'')])
         else (v\<lparr>v_r := Some ''|AM/REBASE''\<rparr>,
               ev @ [Lstat (tpath git ''/rebase-apply/applying'')]))"

text \<open>Lines 251 to 270, the chain below the \<open>rebase-merge\<close> test.\<close>

definition marker_chain :: "world \<Rightarrow> string \<Rightarrow> opvars \<times> event list" where
  "marker_chain w git =
     (if isdir w (tpath git ''/rebase-apply'')
      then (fst (rebase_apply w git),
            Lstat (tpath git ''/rebase-apply'') # snd (rebase_apply w git))
      else if isreg w (tpath git ''/MERGE_HEAD'')
      then (no_op\<lparr>v_r := Some ''|MERGING''\<rparr>,
            [Lstat (tpath git ''/rebase-apply''), Lstat (tpath git ''/MERGE_HEAD'')])
      else if isreg w (tpath git ''/CHERRY_PICK_HEAD'')
      then (no_op\<lparr>v_r := Some ''|CHERRY-PICKING''\<rparr>,
            [Lstat (tpath git ''/rebase-apply''), Lstat (tpath git ''/MERGE_HEAD''),
             Lstat (tpath git ''/CHERRY_PICK_HEAD'')])
      else if isreg w (tpath git ''/REVERT_HEAD'')
      then (no_op\<lparr>v_r := Some ''|REVERTING''\<rparr>,
            [Lstat (tpath git ''/rebase-apply''), Lstat (tpath git ''/MERGE_HEAD''),
             Lstat (tpath git ''/CHERRY_PICK_HEAD''), Lstat (tpath git ''/REVERT_HEAD'')])
      else if isreg w (tpath git ''/BISECT_LOG'')
      then (no_op\<lparr>v_r := Some ''|BISECTING''\<rparr>,
            [Lstat (tpath git ''/rebase-apply''), Lstat (tpath git ''/MERGE_HEAD''),
             Lstat (tpath git ''/CHERRY_PICK_HEAD''), Lstat (tpath git ''/REVERT_HEAD''),
             Lstat (tpath git ''/BISECT_LOG'')])
      else (no_op,
            [Lstat (tpath git ''/rebase-apply''), Lstat (tpath git ''/MERGE_HEAD''),
             Lstat (tpath git ''/CHERRY_PICK_HEAD''), Lstat (tpath git ''/REVERT_HEAD''),
             Lstat (tpath git ''/BISECT_LOG'')]))"

text \<open>
  Lines 273 to 294, the head label when no branch above set \<open>b\<close>: the new \<open>b\<close>, the new
  \<open>detached\<close> and the probes made.  In the detached case \<open>tmp1\<close> holds \<open>(\<close>, then the output
  of \<open>describe\<close> or else \<open>ssha\<close> and three dots, then \<open>)\<close>.
\<close>

definition head_label :: "world \<Rightarrow> string \<Rightarrow> string option \<Rightarrow> string option \<times> bool \<times> event list" where
  "head_label w git ssha =
     (if islnk w (tpath git ''/HEAD'')
      then (if fst (readp w read_head True 256) = 0
            then Some (cstr (snd (readp w read_head True 256))) else None,
            False,
            [Lstat (tpath git ''/HEAD''), Exec read_head])
      else (let head = readf w (tpath git ''/HEAD'') 256
            in if take 5 head = ''ref: ''
               then (Some (drop 5 head), False,
                     [Lstat (tpath git ''/HEAD''), Open (tpath git ''/HEAD'')])
               else (Some (''('' @ (if fst (readp w describe True 254) \<noteq> 0
                                    then strcatv [ssha, Some ''...'']
                                    else cstr (snd (readp w describe True 254))) @ '')''),
                     True,
                     [Lstat (tpath git ''/HEAD''), Open (tpath git ''/HEAD''), Exec describe])))"

text \<open>Lines 246 to 296.\<close>

definition detect :: "world \<Rightarrow> string \<Rightarrow> string option \<Rightarrow> opvars \<times> event list" where
  "detect w git ssha =
     (if isdir w (tpath git ''/rebase-merge'')
      then (fst (rebase_merge w git),
            Lstat (tpath git ''/rebase-merge'') # snd (rebase_merge w git))
      else (let v = fst (marker_chain w git);
                ev = Lstat (tpath git ''/rebase-merge'') # snd (marker_chain w git)
            in if v_b v = None
               then (case head_label w git ssha of
                       (b, d, ev') \<Rightarrow> (v\<lparr>v_b := b, v_detached := d\<rparr>, ev @ ev'))
               else (v, ev)))"

text \<open>Lines 298 to 300.\<close>

definition strip_heads :: "string option \<Rightarrow> string option" where
  "strip_heads b =
     (case b of
        None \<Rightarrow> None
      | Some l \<Rightarrow> if take 11 l = ''refs/heads/'' then Some (drop 11 l) else Some l)"

text \<open>Lines 302 to 304: \<open>r = strcatv(tmp4, r, " ", step, "/", total, NULL)\<close>.\<close>

definition progress :: "opvars \<Rightarrow> string option" where
  "progress v =
     (if v_step v \<noteq> None \<and> v_total v \<noteq> None
      then Some (strcatv [v_r v, Some '' '', v_step v, Some ''/'', v_total v])
      else v_r v)"

section \<open>\<open>git_section\<close>: container overrides and work-tree probes (lines 306 to 337)\<close>

text \<open>The variables \<open>c\<close>, \<open>b\<close>, \<open>w\<close>, \<open>i\<close>, \<open>s\<close> and \<open>p\<close>.\<close>

record marks =
  m_c :: "string option"
  m_b :: "string option"
  m_w :: "string option"
  m_i :: "string option"
  m_s :: "string option"
  m_p :: "string option"

text \<open>The arrows U+2191, U+2193 and U+2195 in UTF-8.\<close>

definition arrow_up :: string where
  "arrow_up = [CHR 0xE2, CHR 0x86, CHR 0x91]"

definition arrow_down :: string where
  "arrow_down = [CHR 0xE2, CHR 0x86, CHR 0x93]"

definition arrow_both :: string where
  "arrow_both = [CHR 0xE2, CHR 0x86, CHR 0x95]"

text \<open>Lines 326 to 335 on the array \<open>tmp\<close> that the upstream command filled: the new \<open>p\<close>,
  or \<open>None\<close> when a \<open>split\<close> left the array.\<close>

definition upstream_mark :: "char list \<Rightarrow> string option" where
  "upstream_mark tmp =
     (if cstr_at tmp 0 = [CHR ''0'', TAB, CHR ''0'']
      then Some []
      else (case split tmp 0 TAB of None \<Rightarrow> None | Some (m1, rmt, n1) \<Rightarrow>
           (case split m1 n1 TAB of None \<Rightarrow> None | Some (m2, loc, n2) \<Rightarrow>
              Some (if cstr_at m2 rmt = ''0'' then arrow_up
                    else if cstr_at m2 loc = ''0'' then arrow_down
                    else arrow_both))))"

text \<open>Lines 325 to 336: the value of \<open>p\<close> inside \<open>Some\<close>, or \<open>None\<close> when a \<open>split\<close> left
  the array.\<close>

definition upstream_probe :: "world \<Rightarrow> char list \<Rightarrow> string option option" where
  "upstream_probe w tmp =
     (if fst (readp w upstream True 256) = 0
      then (case upstream_mark (store tmp (snd (readp w upstream True 256))) of
              None \<Rightarrow> None
            | Some p \<Rightarrow> Some (Some p))
      else Some None)"

text \<open>Lines 313 to 336, the branch of a work tree.\<close>

definition worktree :: "world \<Rightarrow> string option \<Rightarrow> string option \<Rightarrow> (marks \<times> event list) option" where
  "worktree w ssha b =
     (let t1 = store (array256 (tmp0 w)) (snd (readp w diff False 256));
          t2 = store t1 (snd (readp w diff_cached False 256));
          t3 = store t2 (snd (readp w check_stash False 256))
      in (case upstream_probe w t3 of
            None \<Rightarrow> None
          | Some p \<Rightarrow>
              Some (\<lparr>m_c = None, m_b = b,
                     m_w = (if fst (readp w diff False 256) \<noteq> 0 then Some ''*'' else None),
                     m_i = (if fst (readp w diff_cached False 256) \<noteq> 0 then Some ''+''
                            else if ssha = None then Some ''#'' else None),
                     m_s = (if fst (readp w check_stash False 256) = 0 then Some ''$'' else None),
                     m_p = p\<rparr>,
                    [Exec diff, Exec diff_cached, Exec check_stash, Exec upstream])))"

text \<open>Lines 306 to 337.\<close>

definition overrides :: "world \<Rightarrow> located \<Rightarrow> string option \<Rightarrow> (marks \<times> event list) option" where
  "overrides w l b =
     (if f_inside l = ''true''
      then (if f_bare l = ''true''
            then Some (\<lparr>m_c = Some ''BARE:'', m_b = b, m_w = None, m_i = None, m_s = None,
                        m_p = None\<rparr>, [])
            else Some (\<lparr>m_c = None, m_b = Some ''GIT_DIR!'', m_w = None, m_i = None,
                        m_s = None, m_p = None\<rparr>, []))
      else if f_intree l = ''true''
      then worktree w (f_ssha l) b
      else Some (\<lparr>m_c = None, m_b = b, m_w = None, m_i = None, m_s = None, m_p = None\<rparr>, []))"

section \<open>\<open>git_section\<close> as a whole (lines 232 to 352)\<close>

text \<open>
  What \<open>git_section\<close> has computed when it reaches line 339: the located fields, the
  variables, and the probes made in order.  \<open>Fault\<close>: a \<open>split\<close> left its array.
  \<open>Absent\<close>: the test of line 235 failed, with the probes made.
\<close>

record summary =
  s_loc :: located
  s_marks :: marks
  s_r :: "string option"
  s_step :: "string option"
  s_total :: "string option"
  s_detached :: bool
  s_events :: "event list"

datatype outcome = Fault | Absent "event list" | Present summary

text \<open>The array \<open>rpbuf\<close> after line 234.\<close>

definition rpbuf_of :: "world \<Rightarrow> char list" where
  "rpbuf_of w = store (array256 (rpbuf0 w)) (snd (readp w rev_parse False 256))"

definition resolve :: "world \<Rightarrow> outcome" where
  "resolve w =
     (let status = fst (readp w rev_parse False 256);
          rpbuf = rpbuf_of w
      in if rpbuf ! 0 \<noteq> NUL
         then (case locate rpbuf status of
                 None \<Rightarrow> Fault
               | Some l \<Rightarrow>
                   (let v = fst (detect w (f_git l) (f_ssha l));
                        ev = snd (detect w (f_git l) (f_ssha l))
                    in (case overrides w l (strip_heads (v_b v)) of
                          None \<Rightarrow> Fault
                        | Some (m, ev') \<Rightarrow>
                            Present \<lparr>s_loc = l, s_marks = m, s_r = progress v,
                                     s_step = v_step v, s_total = v_total v,
                                     s_detached = v_detached v,
                                     s_events = Exec rev_parse # ev @ ev'\<rparr>)))
         else Absent [Exec rev_parse])"

text \<open>The colours that line 340 passes to \<open>section\<close>.\<close>

definition fg_of :: "bool \<Rightarrow> string" where
  "fg_of dirty = (if dirty then ''15'' else ''0'')"

definition bg_of :: "bool \<Rightarrow> string" where
  "bg_of dirty = (if dirty then ''125'' else ''148'')"

text \<open>Lines 339 to 350.\<close>

definition render :: "pstate \<Rightarrow> summary \<Rightarrow> pstate" where
  "render st s =
     (let m = s_marks s;
          dirty = (s_detached s \<or> m_w m \<noteq> None \<or> m_i m \<noteq> None \<or> m_s m \<noteq> None);
          st0 = section_c st (fg_of dirty) (bg_of dirty);
          st1 = (if m_c m \<noteq> None then append st0 [m_c m] else st0);
          st2 = (if m_b m \<noteq> None then append st1 [m_b m] else st1);
          st3 = (if m_w m \<noteq> None \<or> m_i m \<noteq> None \<or> m_s m \<noteq> None
                 then (let t0 = append st2 [Some '' ''];
                           t1 = (if m_w m \<noteq> None then append t0 [m_w m] else t0);
                           t2 = (if m_i m \<noteq> None then append t1 [m_i m] else t1)
                       in (if m_s m \<noteq> None then append t2 [m_s m] else t2))
                 else st2);
          st4 = (if s_r s \<noteq> None then append st3 [s_r s] else st3)
      in (if m_p m \<noteq> None then append st4 [m_p m] else st4))"

text \<open>\<open>git_section()\<close>: the prompt state it leaves and the probes it made, or \<open>None\<close>
  when a \<open>split\<close> left its array.\<close>

definition git_section :: "world \<Rightarrow> pstate \<Rightarrow> (pstate \<times> event list) option" where
  "git_section w st =
     (case resolve w of
        Fault \<Rightarrow> None
      | Absent ev \<Rightarrow> Some (st, ev)
      | Present s \<Rightarrow> Some (render st s, s_events s))"

section \<open>The states of the specification, read off the variables\<close>

text \<open>
  The operation in progress, as the variables hold it after line 296: the tag in \<open>r\<close>
  names it, and the \<open>rebase-merge\<close> branch, which sets no tag, is the one that leaves
  \<open>r\<close> NULL with \<open>step\<close> set.
\<close>

datatype operation = NoOperation | RebaseMerge | RebaseApply | AmMailbox | AmOrRebase
  | Merging | CherryPicking | Reverting | Bisecting

definition operation_of :: "opvars \<Rightarrow> operation" where
  "operation_of v =
     (case v_r v of
        None \<Rightarrow> (if v_step v \<noteq> None then RebaseMerge else NoOperation)
      | Some t \<Rightarrow>
          (if t = ''|REBASE'' then RebaseApply
           else if t = ''|AM'' then AmMailbox
           else if t = ''|AM/REBASE'' then AmOrRebase
           else if t = ''|MERGING'' then Merging
           else if t = ''|CHERRY-PICKING'' then CherryPicking
           else if t = ''|REVERTING'' then Reverting
           else if t = ''|BISECTING'' then Bisecting
           else NoOperation))"

text \<open>An ordered list of rules, the first one whose condition holds giving the result.\<close>

fun first_match :: "(bool \<times> 'a) list \<Rightarrow> 'a \<Rightarrow> 'a" where
  "first_match [] d = d"
| "first_match ((cond, x) # rules) d = (if cond then x else first_match rules d)"

text \<open>The upstream divergence and the value of \<open>p\<close> that stands for it.\<close>

datatype divergence = NoUpstream | InSync | Ahead | Behind | Diverged

fun divergence_mark :: "divergence \<Rightarrow> string option" where
  "divergence_mark NoUpstream = None"
| "divergence_mark InSync = Some []"
| "divergence_mark Ahead = Some arrow_up"
| "divergence_mark Behind = Some arrow_down"
| "divergence_mark Diverged = Some arrow_both"

definition classify :: "nat \<Rightarrow> nat \<Rightarrow> divergence" where
  "classify behind ahead =
     (if behind = 0 \<and> ahead = 0 then InSync
      else if behind = 0 then Ahead
      else if ahead = 0 then Behind
      else Diverged)"

text \<open>The decimal numeral that \<open>git rev-list --count\<close> prints for a count.\<close>

definition digit :: "nat \<Rightarrow> char" where
  "digit d = ''0123456789'' ! d"

fun dec :: "nat \<Rightarrow> string" where
  "dec n = (if n < 10 then [digit n] else dec (n div 10) @ [digit (n mod 10)])"

text \<open>The index state and the value of \<open>i\<close> that stands for it.\<close>

datatype index_state = Clean | Staged | NoCommitsYet

fun index_mark :: "index_state \<Rightarrow> string option" where
  "index_mark Clean = None"
| "index_mark Staged = Some ''+''"
| "index_mark NoCommitsYet = Some ''#''"

section \<open>Concrete environments\<close>

text \<open>A child that exits with \<open>code\<close> after writing \<open>out\<close>.\<close>

definition exited :: "nat \<Rightarrow> string \<Rightarrow> spawn" where
  "exited code out = Child (push_bit 8 (word_of_nat code)) out"

text \<open>An environment given by tables; a command that is not listed cannot be executed.\<close>

definition mk_world :: "(cmd \<times> spawn) list \<Rightarrow> (string \<times> kind) list \<Rightarrow> (string \<times> string) list \<Rightarrow> world" where
  "mk_world procs kinds files =
     \<lparr>run = (\<lambda>c. case map_of procs c of None \<Rightarrow> NoExec | Some r \<Rightarrow> r),
      lstat = map_of kinds, content = map_of files, chunk = 3,
      rpbuf0 = (\<lambda>i. CHR ''?''), tmp0 = (\<lambda>i. CHR ''?'')\<rparr>"

definition lines :: "string list \<Rightarrow> string" where
  "lines ls = concat (map (\<lambda>l. l @ [LF]) ls)"

text \<open>No git executable.\<close>

definition no_git :: world where
  "no_git = mk_world [] [] []"

text \<open>A child killed by signal 9.\<close>

definition killed :: world where
  "killed = mk_world [(describe, Child 9 [])] [] []"

text \<open>A \<open>rebase-merge\<close> directory at step 3 of 7 for branch \<open>main\<close>, with a \<open>MERGE_HEAD\<close>
  file beside it; HEAD is detached, as it is during a rebase.\<close>

definition rebasing :: world where
  "rebasing = mk_world
     [(rev_parse, exited 0 (lines [''.git'', ''false'', ''false'', ''true'', ''abc1234''])),
      (diff, exited 0 []), (diff_cached, exited 0 []), (check_stash, exited 1 []),
      (upstream, exited 128 [])]
     [(''.git/rebase-merge'', Dir), (''.git/MERGE_HEAD'', Reg), (''.git/HEAD'', Reg)]
     [(''.git/rebase-merge/head-name'', lines [''refs/heads/main'']),
      (''.git/rebase-merge/msgnum'', lines [''3'']),
      (''.git/rebase-merge/end'', lines [''7'']),
      (''.git/HEAD'', lines [''0123456789abcdef0123456789abcdef01234567''])]"

text \<open>A \<open>rebase-apply\<close> directory with none of its files, on branch \<open>main\<close>.\<close>

definition applying_empty :: world where
  "applying_empty = mk_world
     [(rev_parse, exited 0 (lines [''.git'', ''false'', ''false'', ''true'', ''abc1234''])),
      (diff, exited 0 []), (diff_cached, exited 0 []), (check_stash, exited 1 []),
      (upstream, exited 128 [])]
     [(''.git/rebase-apply'', Dir), (''.git/HEAD'', Reg)]
     [(''.git/HEAD'', lines [''ref: refs/heads/main''])]"

text \<open>A clean work tree on branch \<open>main\<close> whose upstream count prints the line
  \<open>behind\<close>, tab, \<open>ahead\<close>.\<close>

definition tracking :: "string \<Rightarrow> string \<Rightarrow> world" where
  "tracking behind ahead = mk_world
     [(rev_parse, exited 0 (lines [''.git'', ''false'', ''false'', ''true'', ''abc1234''])),
      (diff, exited 0 []), (diff_cached, exited 0 []), (check_stash, exited 1 []),
      (upstream, exited 0 (lines [behind @ TAB # ahead]))]
     [(''.git/HEAD'', Reg)]
     [(''.git/HEAD'', lines [''ref: refs/heads/main''])]"

text \<open>A repository without commits: \<open>--short HEAD\<close> fails after the four flags are printed.\<close>

definition unborn :: world where
  "unborn = mk_world
     [(rev_parse, exited 128 (lines [''.git'', ''false'', ''false'', ''true''])),
      (diff, exited 0 []), (diff_cached, exited 0 []), (check_stash, exited 1 []),
      (upstream, exited 128 [])]
     [(''.git/HEAD'', Reg)]
     [(''.git/HEAD'', lines [''ref: refs/heads/main''])]"

text \<open>The working directory is the metadata directory, of a normal and of a bare repository.\<close>

definition in_gitdir :: world where
  "in_gitdir = mk_world
     [(rev_parse, exited 0 (lines [''.'', ''true'', ''false'', ''false'', ''abc1234'']))]
     [(''./HEAD'', Reg)]
     [(''./HEAD'', lines [''ref: refs/heads/main''])]"

definition in_bare :: world where
  "in_bare = mk_world
     [(rev_parse, exited 0 (lines [''.'', ''true'', ''true'', ''false'', ''abc1234'']))]
     [(''./HEAD'', Reg)]
     [(''./HEAD'', lines [''ref: refs/heads/main''])]"

text \<open>A file of three bytes that does not end in a line separator.\<close>

definition unterminated :: world where
  "unterminated = mk_world [] [] [(''f'', ''abc'')]"

text \<open>A metadata directory whose absolute path has 307 bytes, printed in full because
  the working directory is below the top of the work tree.\<close>

definition long_path :: string where
  "long_path = CHR ''/'' # replicate 150 (CHR ''d'') @ CHR ''/'' # replicate 150 (CHR ''e'') @ ''/.git''"

definition long_gitdir :: world where
  "long_gitdir = mk_world
     [(rev_parse, exited 0 (lines [long_path, ''false'', ''false'', ''true'', ''abc1234''])),
      (diff, exited 0 []), (diff_cached, exited 0 []), (check_stash, exited 1 []),
      (upstream, exited 128 [])]
     [(long_path @ ''/HEAD'', Reg)]
     [(long_path @ ''/HEAD'', lines [''ref: refs/heads/main''])]"

text \<open>A working directory of 4087 bytes, below \<open>PATH_MAX\<close>, in components of at most
  255 bytes, the last of which contains a \<open>$\<close>; user \<open>u\<close> on host \<open>h\<close>.\<close>

definition deep_path :: string where
  "deep_path = concat (replicate 15 (CHR ''/'' # replicate 255 (CHR ''d'')))
               @ CHR ''/'' # replicate 244 (CHR ''d'') @ ''$x''"

definition deep_data :: prompt_data where
  "deep_data = \<lparr>user = Some ''u'', host = Some ''h'', pwd = Some deep_path,
                 cwd = Some deep_path, error = False\<rparr>"

text \<open>An array of 256 stale bytes.\<close>

definition stale :: "char list" where
  "stale = array256 (\<lambda>i. CHR ''?'')"

text \<open>The prompt after 4095 bytes were stored.\<close>

definition nearly_full :: pstate where
  "nearly_full = appendraw initial [Some (replicate 4095 (CHR ''a''))]"

text \<open>What \<open>git_section\<close> computes in three of these environments.\<close>

definition unborn_summary :: summary where
  "unborn_summary =
     \<lparr>s_loc = \<lparr>f_git = ''.git'', f_inside = ''false'', f_bare = ''false'',
               f_intree = ''true'', f_ssha = None\<rparr>,
      s_marks = \<lparr>m_c = None, m_b = Some ''main'', m_w = None, m_i = Some ''#'', m_s = None,
                 m_p = None\<rparr>,
      s_r = None, s_step = None, s_total = None, s_detached = False,
      s_events = [Exec rev_parse, Lstat ''.git/rebase-merge'', Lstat ''.git/rebase-apply'',
                  Lstat ''.git/MERGE_HEAD'', Lstat ''.git/CHERRY_PICK_HEAD'',
                  Lstat ''.git/REVERT_HEAD'', Lstat ''.git/BISECT_LOG'', Lstat ''.git/HEAD'',
                  Open ''.git/HEAD'', Exec diff, Exec diff_cached, Exec check_stash,
                  Exec upstream]\<rparr>"

definition in_gitdir_summary :: summary where
  "in_gitdir_summary =
     \<lparr>s_loc = \<lparr>f_git = ''.'', f_inside = ''true'', f_bare = ''false'',
               f_intree = ''false'', f_ssha = Some ''abc1234''\<rparr>,
      s_marks = \<lparr>m_c = None, m_b = Some ''GIT_DIR!'', m_w = None, m_i = None, m_s = None,
                 m_p = None\<rparr>,
      s_r = None, s_step = None, s_total = None, s_detached = False,
      s_events = [Exec rev_parse, Lstat ''./rebase-merge'', Lstat ''./rebase-apply'',
                  Lstat ''./MERGE_HEAD'', Lstat ''./CHERRY_PICK_HEAD'', Lstat ''./REVERT_HEAD'',
                  Lstat ''./BISECT_LOG'', Lstat ''./HEAD'', Open ''./HEAD'']\<rparr>"

definition in_bare_summary :: summary where
  "in_bare_summary =
     \<lparr>s_loc = \<lparr>f_git = ''.'', f_inside = ''true'', f_bare = ''true'',
               f_intree = ''false'', f_ssha = Some ''abc1234''\<rparr>,
      s_marks = \<lparr>m_c = Some ''BARE:'', m_b = Some ''main'', m_w = None, m_i = None,
                 m_s = None, m_p = None\<rparr>,
      s_r = None, s_step = None, s_total = None, s_detached = False,
      s_events = [Exec rev_parse, Lstat ''./rebase-merge'', Lstat ''./rebase-apply'',
                  Lstat ''./MERGE_HEAD'', Lstat ''./CHERRY_PICK_HEAD'', Lstat ''./REVERT_HEAD'',
                  Lstat ''./BISECT_LOG'', Lstat ''./HEAD'', Open ''./HEAD'']\<rparr>"

section \<open>Reading loops\<close>

declare read_pipe.simps [simp del] read_file.simps [simp del] scan.simps [simp del]
  dec.simps [simp del]

lemma sys_read_pos: "(0 < sys_read k stream r) = (stream \<noteq> [] \<and> 0 < r)"
  unfolding sys_read_def by (cases stream) (auto simp: min_def)

lemma sys_read_le: "sys_read k stream r \<le> length stream"
  by (simp add: sys_read_def min_def)

lemma sys_read_le_count: "sys_read k stream r \<le> nat r"
  unfolding sys_read_def by (auto simp: min_def)

lemma take_chunks: "n \<le> m \<Longrightarrow> take n xs @ take (m - n) (drop n xs) = take m xs"
  by (metis le_add_diff_inverse take_add)

text \<open>Whatever the sizes of the single transfers, both loops store the first \<open>r\<close> bytes
  of the stream.\<close>

lemma read_pipe_take: "read_pipe k stream r = take (nat r) stream"
proof (induction k stream r rule: read_pipe.induct)
  case (1 k stream r)
  let ?n = "sys_read k stream r"
  show ?case
  proof (cases "r > 0 \<and> ?n > 0")
    case True
    have "read_pipe k stream r = take ?n stream @ take (nat (r - int ?n)) (drop ?n stream)"
      using True 1 by (subst read_pipe.simps) simp
    also have "nat (r - int ?n) = nat r - ?n" by linarith
    finally show ?thesis using take_chunks[OF sys_read_le_count] by simp
  next
    case False
    then have "nat r = 0 \<or> stream = []" by (auto simp: sys_read_pos)
    then show ?thesis using False by (subst read_pipe.simps) auto
  qed
qed

lemma read_file_take: "read_file k stream r = take (nat r) stream"
proof (induction k stream r rule: read_file.induct)
  case (1 k stream r)
  let ?n = "sys_read k stream r"
  show ?case
  proof (cases "?n > 0")
    case True
    have "read_file k stream r = take ?n stream @ take (nat (r - int ?n)) (drop ?n stream)"
      using True 1 by (subst read_file.simps) simp
    also have "nat (r - int ?n) = nat r - ?n" by linarith
    finally show ?thesis using take_chunks[OF sys_read_le_count] by simp
  next
    case False
    then have "nat r = 0 \<or> stream = []" by (auto simp: sys_read_pos)
    then show ?thesis using False by (subst read_file.simps) auto
  qed
qed

lemma readf_bytes_eq:
  "readf_bytes w path sz =
     (case content w path of None \<Rightarrow> [] | Some bytes \<Rightarrow> butlast (take (sz - 1) bytes))"
proof -
  have "nat (int sz - 1) = sz - 1" by linarith
  then show ?thesis
    by (simp add: readf_bytes_def read_file_take Let_def split: option.split)
qed

lemma readp_parent_eq:
  "readp_parent k single sz ws out =
     (if WIFEXITED ws then WEXITSTATUS ws else - 1,
      if single then butlast (take (sz - 1) out) else take (sz - 1) out)"
proof -
  have "nat (int sz - 1) = sz - 1" by linarith
  then show ?thesis by (simp add: readp_parent_def read_pipe_take Let_def)
qed

section \<open>The exit code of \<open>readp\<close>\<close>

lemma wexitstatus_range: "0 \<le> WEXITSTATUS ws \<and> WEXITSTATUS ws \<le> 255"
proof -
  have "ws AND 0xff00 \<le> 0xff00" by (rule word_and_le1)
  then have "unat (ws AND 0xff00) \<le> 0xff00" by (simp add: word_le_nat_alt)
  then have "unat (ws AND 0xff00) div 2 ^ 8 \<le> 255" by simp
  moreover have "WEXITSTATUS ws = int (unat (ws AND 0xff00) div 2 ^ 8)"
    by (simp only: WEXITSTATUS_def uint_nat unat_drop_bit_eq) (simp only: drop_bit_eq_div)
  ultimately show ?thesis by simp
qed

lemma exit_one: "WIFEXITED 256 \<and> WEXITSTATUS 256 = 1"
  by (simp add: WIFEXITED_def WEXITSTATUS_def)

lemma no_child_status: "WIFEXITED 0 \<and> WEXITSTATUS 0 = 0"
  by (simp add: WIFEXITED_def WEXITSTATUS_def)

text \<open>
  Claim C8, as the code has it.  When \<open>execvp\<close> fails, the forked child runs \<open>exit(1)\<close>, so
  \<open>readp\<close> returns the exit code 1 with nothing captured.  Every value returned is either
  an exit status from 0 to 255 or the reserved \<open>-1\<close>, and \<open>-1\<close> is returned exactly for a
  child that did not exit normally.
\<close>

theorem readp_exit_code:
  "(run w cmd = NoExec \<longrightarrow> readp w cmd single sz = (1, [])) \<and>
   (\<forall>ws out. run w cmd = Child ws out \<longrightarrow>
      fst (readp w cmd single sz) = (if WIFEXITED ws then WEXITSTATUS ws else - 1)) \<and>
   (fst (readp w cmd single sz) = - 1 \<or>
    (0 \<le> fst (readp w cmd single sz) \<and> fst (readp w cmd single sz) \<le> 255))"
proof (cases "run w cmd")
  case NoChild
  then show ?thesis by (simp add: readp_def no_child_status)
next
  case NoExec
  then show ?thesis by (simp add: readp_def readp_parent_eq exit_one)
next
  case (Child ws out)
  then show ?thesis using wexitstatus_range[of ws] by (simp add: readp_def readp_parent_eq)
qed

text \<open>The theorem at a missing executable and at a child killed by a signal.\<close>

theorem readp_exit_code_witness:
  "run no_git rev_parse = NoExec \<and> readp no_git rev_parse False 256 = (1, []) \<and>
   run killed describe = Child 9 [] \<and> fst (readp killed describe True 254) = - 1"
proof -
  have a: "run no_git rev_parse = NoExec" by (simp add: no_git_def mk_world_def)
  have b: "run killed describe = Child 9 []" by (simp add: killed_def mk_world_def)
  have c: "\<not> WIFEXITED 9" by (simp add: WIFEXITED_def)
  show ?thesis
    using readp_exit_code[of no_git rev_parse False 256] readp_exit_code[of killed describe True 254]
      a b c by simp
qed

text \<open>
  Claim C8 as stated fails: with no executable to launch, the code returned is 1, an
  ordinary exit status, and the whole result is that of a child that was launched,
  printed nothing and exited with status 1.
\<close>

theorem readp_sentinel_counterexample:
  "run no_git rev_parse = NoExec \<and>
   fst (readp no_git rev_parse False 256) = 1 \<and>
   readp no_git rev_parse False 256
     = readp (mk_world [(rev_parse, exited 1 [])] [] []) rev_parse False 256"
  by (simp add: no_git_def mk_world_def readp_def readp_parent_eq exit_one exited_def)

section \<open>The contract of \<open>readf\<close>\<close>

text \<open>
  Claim C7, as the code has it.  \<open>readf\<close> reads the first \<open>sz - 1\<close> bytes of the file at
  most, drops the last byte read whatever it is (line 143 does not look at it), and
  returns what precedes the first NUL byte of the rest; when the file cannot be opened
  the result is the empty string.
\<close>

theorem readf_contract:
  "readf w path sz =
     (case content w path of
        None \<Rightarrow> []
      | Some bytes \<Rightarrow> cstr (butlast (take (sz - 1) bytes))) \<and>
   length (readf_bytes w path sz) \<le> sz - 1 \<and>
   read_file (chunk w) bytes (int sz - 1) = take (sz - 1) bytes"
proof -
  have "nat (int sz - 1) = sz - 1" by linarith
  then show ?thesis
    by (auto simp: readf_def readf_bytes_eq read_file_take cstr_def split: option.split)
qed

text \<open>
  Claim C7 as stated fails: a file holding \<open>abc\<close>, whose last byte is not a line
  separator, is returned as \<open>ab\<close>.
\<close>

theorem readf_trim_counterexample:
  "content unterminated ''f'' = Some ''abc'' \<and> readf unterminated ''f'' 256 = ''ab'' \<and>
   readf unterminated ''f'' 256 \<noteq> ''abc''"
  by (simp add: readf_def readf_bytes_eq unterminated_def mk_world_def cstr_def)

section \<open>Buffer safety of prompt assembly\<close>

text \<open>\<open>appendraw\<close> stays within the array: it stores one byte for each unit of \<open>remaining\<close>.\<close>

lemma appendraw_loop_in_buffer:
  "in_buffer st \<Longrightarrow> in_buffer (appendraw_loop st src)"
  by (induction st src rule: appendraw_loop.induct) (auto simp: in_buffer_def)

lemma appendraw_in_buffer:
  "in_buffer st \<Longrightarrow> in_buffer (appendraw st args)"
  by (induction st args rule: appendraw.induct) (auto simp: appendraw_loop_in_buffer)

lemma appendraw_loop_fits:
  "int (length src) \<le> remaining st \<Longrightarrow>
   appendraw_loop st src = st\<lparr>stored := stored st @ src, remaining := remaining st - int (length src)\<rparr>"
  by (induction st src rule: appendraw_loop.induct) auto

lemma nearly_full_eq:
  "nearly_full = \<lparr>stored = replicate 4095 (CHR ''a''), remaining = 1, lastbg = None\<rparr>"
  by (simp add: nearly_full_def initial_def prompt_size_def appendraw_loop_fits)

text \<open>\<open>append\<close> on bytes that need no escape does the same, and a fragment can be fed
  to it in two parts.\<close>

lemma append_loop_plain:
  "\<forall>c \<in> set src. c \<noteq> CHR ''$'' \<and> c \<noteq> BSL \<Longrightarrow> int (length src) \<le> remaining st \<Longrightarrow>
   append_loop st src = st\<lparr>stored := stored st @ src, remaining := remaining st - int (length src)\<rparr>"
  by (induction st src rule: append_loop.induct) auto

lemma append_loop_app:
  "append_loop st (xs @ ys) = append_loop (append_loop st xs) ys"
proof (induction st xs rule: append_loop.induct)
  case (1 st)
  then show ?case by simp
next
  case (2 st c cs)
  then show ?case by (cases ys) auto
qed

lemma deep_plain:
  "\<forall>c \<in> set (concat (replicate 15 (CHR ''/'' # replicate 255 (CHR ''d'')))
               @ CHR ''/'' # replicate 244 (CHR ''d'')). c \<noteq> CHR ''$'' \<and> c \<noteq> BSL"
  by auto

lemma deep_length:
  "length (concat (replicate 15 (CHR ''/'' # replicate 255 (CHR ''d'')))
               @ CHR ''/'' # replicate 244 (CHR ''d'')) = 4085"
  by (simp add: length_concat sum_list_replicate)

text \<open>The title segment of a prompt for the deep working directory: the \<open>$\<close> arrives with
  one byte of room left.\<close>

lemma title_section_overflow:
  "length deep_path = 4087 \<and>
   remaining (title_section initial deep_data) = - 5 \<and>
   length (stored (title_section initial deep_data)) = 4101"
proof -
  let ?plain = "concat (replicate 15 (CHR ''/'' # replicate 255 (CHR ''d'')))
               @ CHR ''/'' # replicate 244 (CHR ''d'')"
  let ?st = "\<lparr>stored = BSL # CHR ''['' # ESC # '']0;u@h:'', remaining = 4086, lastbg = None\<rparr>"
  have "append_loop ?st ?plain
        = ?st\<lparr>stored := stored ?st @ ?plain, remaining := remaining ?st - int (length ?plain)\<rparr>"
    by (rule append_loop_plain[OF deep_plain]) (simp only: deep_length, simp)
  then have "append_loop ?st (?plain @ ''$x'')
        = \<lparr>stored = stored ?st @ ?plain @ [BSL, CHR ''$'', CHR ''x''], remaining = - 2,
           lastbg = None\<rparr>"
    by (simp only: append_loop_app deep_length) simp
  then show ?thesis
    by (simp add: title_section_def deep_data_def deep_path_def initial_def prompt_size_def
        length_concat sum_list_replicate)
qed

text \<open>
  Claim C9 fails on the code.  With one byte of room left, \<open>append\<close> of a fragment that
  starts with \<open>$\<close> stores the backslash in the last byte of the array and the \<open>$\<close>
  behind it; \<open>remaining\<close> is then \<open>-1\<close>, the loop test \<open>remaining && *src\<close> stays true,
  and the rest of the fragment follows: 4101 bytes are stored and \<open>remaining\<close> is \<open>-5\<close>.
  The same happens in \<open>title_section\<close> for a working directory of 4087 bytes.
\<close>

theorem append_escape_overflow:
  "in_buffer nearly_full \<and> remaining nearly_full = 1 \<and>
   remaining (append nearly_full [Some ''$HOME'']) = - 5 \<and>
   length (stored (append nearly_full [Some ''$HOME''])) = 4101 \<and>
   \<not> in_buffer (append nearly_full [Some ''$HOME'']) \<and>
   in_buffer initial \<and> \<not> in_buffer (title_section initial deep_data)"
  using title_section_overflow
  by (simp add: nearly_full_eq in_buffer_def prompt_size_def initial_def)

section \<open>The absent state\<close>

lemma store_first: "store buf out ! 0 = (case out of [] \<Rightarrow> NUL | c # cs \<Rightarrow> c)"
  by (cases out) (simp_all add: store_def)

lemma cstr_empty: "(cstr out = []) = (case out of [] \<Rightarrow> True | c # cs \<Rightarrow> c = NUL)"
  by (cases out) (simp_all add: cstr_def)

text \<open>
  Claim C2.  When the location probe captured the empty string (nothing was printed: the
  working directory is in no repository, or git could not be run), \<open>git_section\<close> makes
  no probe besides that one \<open>rev-parse\<close> call and leaves the prompt as it found it.
\<close>

theorem absent_short_circuit:
  "cstr (snd (readp w rev_parse False 256)) = [] \<Longrightarrow>
   resolve w = Absent [Exec rev_parse] \<and> git_section w st = Some (st, [Exec rev_parse])"
proof -
  assume "cstr (snd (readp w rev_parse False 256)) = []"
  then have "rpbuf_of w ! 0 = NUL"
    by (simp add: rpbuf_of_def store_first cstr_empty split: list.splits)
  then have "resolve w = Absent [Exec rev_parse]" by (simp add: resolve_def Let_def)
  then show ?thesis by (simp add: git_section_def)
qed

text \<open>The theorem where git cannot be executed.\<close>

theorem absent_short_circuit_witness:
  "cstr (snd (readp no_git rev_parse False 256)) = [] \<and>
   git_section no_git initial = Some (initial, [Exec rev_parse])"
proof -
  have h: "cstr (snd (readp no_git rev_parse False 256)) = []"
    by (simp add: no_git_def mk_world_def readp_def readp_parent_eq cstr_def)
  show ?thesis using absent_short_circuit[OF h, of initial] h by simp
qed

section \<open>The priority of the operation in progress\<close>

lemma operation_of_cong:
  "v_r v = v_r v' \<Longrightarrow> v_step v = v_step v' \<Longrightarrow> operation_of v = operation_of v'"
  by (simp only: operation_of_def)

lemma operation_rebase_merge: "operation_of (fst (rebase_merge w git)) = RebaseMerge"
  by (simp add: rebase_merge_def operation_of_def no_op_def)

lemma operation_rebase_apply:
  "operation_of (fst (rebase_apply w git)) =
     (if isreg w (tpath git ''/rebase-apply/rebasing'') then RebaseApply
      else if isreg w (tpath git ''/rebase-apply/applying'') then AmMailbox
      else AmOrRebase)"
  by (simp add: rebase_apply_def operation_of_def no_op_def Let_def)

lemma operation_tags:
  "operation_of no_op = NoOperation"
  "operation_of (no_op\<lparr>v_r := Some ''|MERGING''\<rparr>) = Merging"
  "operation_of (no_op\<lparr>v_r := Some ''|CHERRY-PICKING''\<rparr>) = CherryPicking"
  "operation_of (no_op\<lparr>v_r := Some ''|REVERTING''\<rparr>) = Reverting"
  "operation_of (no_op\<lparr>v_r := Some ''|BISECTING''\<rparr>) = Bisecting"
  by (simp_all add: operation_of_def no_op_def)

lemma operation_marker_chain:
  "operation_of (fst (marker_chain w git)) =
     (if isdir w (tpath git ''/rebase-apply'') then operation_of (fst (rebase_apply w git))
      else if isreg w (tpath git ''/MERGE_HEAD'') then Merging
      else if isreg w (tpath git ''/CHERRY_PICK_HEAD'') then CherryPicking
      else if isreg w (tpath git ''/REVERT_HEAD'') then Reverting
      else if isreg w (tpath git ''/BISECT_LOG'') then Bisecting
      else NoOperation)"
  unfolding marker_chain_def
  by (simp only: fst_conv operation_tags if_distrib[of operation_of] if_distrib[of fst]
      cong: if_cong)

lemma detect_keeps_operation:
  "\<not> isdir w (tpath git ''/rebase-merge'') \<Longrightarrow>
   operation_of (fst (detect w git ssha)) = operation_of (fst (marker_chain w git))"
  by (rule operation_of_cong) (simp_all add: detect_def Let_def split: prod.split)

lemma detect_rebase_merge:
  "isdir w (tpath git ''/rebase-merge'') \<Longrightarrow> fst (detect w git ssha) = fst (rebase_merge w git)"
  by (simp add: detect_def)

text \<open>
  Claim C1.  After lines 246 to 296 the variables hold exactly one operation, the one
  of the first rule that matches in the order \<open>rebase-merge\<close> directory, \<open>rebase-apply\<close>
  directory, \<open>MERGE_HEAD\<close>, \<open>CHERRY_PICK_HEAD\<close>, \<open>REVERT_HEAD\<close>, \<open>BISECT_LOG\<close>, and none
  otherwise.  In particular a metadata directory with both a \<open>rebase-merge\<close>
  subdirectory and a \<open>MERGE_HEAD\<close> file gives \<open>RebaseMerge\<close>, and its tag is never that of
  a merge.
\<close>

theorem operation_priority:
  "operation_of (fst (detect w git ssha)) =
     first_match
       [(isdir w (tpath git ''/rebase-merge''), RebaseMerge),
        (isdir w (tpath git ''/rebase-apply''),
           first_match [(isreg w (tpath git ''/rebase-apply/rebasing''), RebaseApply),
                        (isreg w (tpath git ''/rebase-apply/applying''), AmMailbox)] AmOrRebase),
        (isreg w (tpath git ''/MERGE_HEAD''), Merging),
        (isreg w (tpath git ''/CHERRY_PICK_HEAD''), CherryPicking),
        (isreg w (tpath git ''/REVERT_HEAD''), Reverting),
        (isreg w (tpath git ''/BISECT_LOG''), Bisecting)]
       NoOperation \<and>
   (isdir w (tpath git ''/rebase-merge'') \<and> isreg w (tpath git ''/MERGE_HEAD'') \<longrightarrow>
      operation_of (fst (detect w git ssha)) = RebaseMerge \<and>
      progress (fst (detect w git ssha)) \<noteq> Some ''|MERGING'')"
proof (cases "isdir w (tpath git ''/rebase-merge'')")
  case True
  have "progress (fst (rebase_merge w git)) \<noteq> Some ''|MERGING''"
    by (simp add: progress_def rebase_merge_def no_op_def)
  then show ?thesis using True by (simp add: detect_rebase_merge operation_rebase_merge)
next
  case False
  then show ?thesis
    by (simp add: detect_keeps_operation operation_marker_chain operation_rebase_apply)
qed

text \<open>The theorem in a metadata directory that has both markers.\<close>

theorem operation_priority_witness:
  "isdir rebasing (tpath ''.git'' ''/rebase-merge'') \<and>
   isreg rebasing (tpath ''.git'' ''/MERGE_HEAD'') \<and>
   operation_of (fst (detect rebasing ''.git'' (Some ''abc1234''))) = RebaseMerge"
proof -
  have a: "isdir rebasing (tpath ''.git'' ''/rebase-merge'')"
    by (simp add: isdir_def rebasing_def mk_world_def tpath_def)
  have b: "isreg rebasing (tpath ''.git'' ''/MERGE_HEAD'')"
    by (simp add: isreg_def rebasing_def mk_world_def tpath_def)
  show ?thesis using operation_priority[of rebasing "''.git''" "Some ''abc1234''"] a b by simp
qed

section \<open>Where \<open>split\<close> stops\<close>

lemma scan_stop:
  "(\<forall>x \<in> set xs. x \<noteq> NUL \<and> x \<noteq> sep) \<Longrightarrow> c = NUL \<or> c = sep \<Longrightarrow>
   scan (pre @ xs @ c # rest) (length pre) sep = Some (length pre + length xs)"
proof (induction xs arbitrary: pre)
  case Nil
  then show ?case by (subst scan.simps) auto
next
  case (Cons x xs)
  have "scan ((pre @ [x]) @ xs @ c # rest) (length (pre @ [x])) sep
        = Some (length (pre @ [x]) + length xs)"
    using Cons.IH[of "pre @ [x]"] Cons.prems by simp
  moreover have "scan (pre @ (x # xs) @ c # rest) (length pre) sep
        = scan (pre @ (x # xs) @ c # rest) (Suc (length pre)) sep"
    using Cons.prems by (subst scan.simps) (simp add: nth_append)
  ultimately show ?case by simp
qed

text \<open>A \<open>split\<close> that meets a separator or a terminator inside the array returns the
  segment before it and moves \<open>next\<close> one byte past it.\<close>

lemma split_stop:
  assumes "\<forall>x \<in> set xs. x \<noteq> NUL \<and> x \<noteq> sep" and "c = NUL \<or> c = sep"
  shows "split (pre @ xs @ c # rest) (length pre) sep
         = Some (pre @ xs @ NUL # rest, length pre, Suc (length pre + length xs))"
proof -
  have "(pre @ xs @ c # rest)[length pre + length xs := NUL] = pre @ xs @ NUL # rest"
    using list_update_length[of "pre @ xs" c rest NUL] by simp
  then show ?thesis using scan_stop[OF assms] by (simp add: split_def)
qed

lemma cstr_segment: "NUL \<notin> set xs \<Longrightarrow> cstr (xs @ NUL # rest) = xs"
  by (induction xs) (auto simp: cstr_def)

lemma cstr_at_segment:
  "NUL \<notin> set xs \<Longrightarrow> cstr_at (pre @ xs @ NUL # rest) (length pre) = xs"
  by (simp add: cstr_at_def cstr_segment)

text \<open>When the captured text has its five lines, the five calls stay in the array and
  return the five fields, whatever the array held before.\<close>

lemma locate_five_lines:
  assumes g: "\<forall>x \<in> set g. x \<noteq> NUL \<and> x \<noteq> LF" and i: "\<forall>x \<in> set i. x \<noteq> NUL \<and> x \<noteq> LF"
    and b: "\<forall>x \<in> set b. x \<noteq> NUL \<and> x \<noteq> LF" and t: "\<forall>x \<in> set t. x \<noteq> NUL \<and> x \<noteq> LF"
    and s: "\<forall>x \<in> set s. x \<noteq> NUL \<and> x \<noteq> LF"
  shows "locate (store buf (lines [g, i, b, t, s])) 0
         = Some \<lparr>f_git = g, f_inside = i, f_bare = b, f_intree = t, f_ssha = Some s\<rparr>"
proof -
  let ?rest = "drop (Suc (length (lines [g, i, b, t, s]))) buf"
  let ?b0 = "g @ LF # i @ LF # b @ LF # t @ LF # s @ LF # NUL # ?rest"
  let ?b1 = "g @ NUL # i @ LF # b @ LF # t @ LF # s @ LF # NUL # ?rest"
  let ?b2 = "g @ NUL # i @ NUL # b @ LF # t @ LF # s @ LF # NUL # ?rest"
  let ?b3 = "g @ NUL # i @ NUL # b @ NUL # t @ LF # s @ LF # NUL # ?rest"
  let ?b4 = "g @ NUL # i @ NUL # b @ NUL # t @ NUL # s @ LF # NUL # ?rest"
  let ?b5 = "g @ NUL # i @ NUL # b @ NUL # t @ NUL # s @ NUL # NUL # ?rest"
  let ?n1 = "Suc (length g)"
  let ?n2 = "Suc (?n1 + length i)"
  let ?n3 = "Suc (?n2 + length b)"
  let ?n4 = "Suc (?n3 + length t)"
  let ?n5 = "Suc (?n4 + length s)"
  have buf: "store buf (lines [g, i, b, t, s]) = ?b0" by (simp add: store_def lines_def)
  have s1: "split ?b0 0 LF = Some (?b1, 0, ?n1)"
    using split_stop[where xs = g and sep = LF and c = LF and pre = "[]", OF g] by simp
  have s2: "split ?b1 ?n1 LF = Some (?b2, ?n1, ?n2)"
    using split_stop[where xs = i and sep = LF and c = LF and pre = "g @ [NUL]", OF i] by simp
  have s3: "split ?b2 ?n2 LF = Some (?b3, ?n2, ?n3)"
    using split_stop[where xs = b and sep = LF and c = LF and pre = "g @ NUL # i @ [NUL]", OF b]
    by (simp add: add.assoc)
  have s4: "split ?b3 ?n3 LF = Some (?b4, ?n3, ?n4)"
    using split_stop[where xs = t and sep = LF and c = LF
        and pre = "g @ NUL # i @ NUL # b @ [NUL]", OF t]
    by (simp add: add.assoc)
  have s5: "split ?b4 ?n4 LF = Some (?b5, ?n4, ?n5)"
    using split_stop[where xs = s and sep = LF and c = LF
        and pre = "g @ NUL # i @ NUL # b @ NUL # t @ [NUL]", OF s]
    by (simp add: add.assoc)
  have c0: "cstr_at ?b5 0 = g"
    using g cstr_at_segment[of g "[]"] by (auto simp: add.assoc)
  have c1: "cstr_at ?b5 ?n1 = i"
    using i cstr_at_segment[of i "g @ [NUL]"] by (auto simp: add.assoc)
  have c2: "cstr_at ?b5 ?n2 = b"
    using b cstr_at_segment[of b "g @ NUL # i @ [NUL]"] by (auto simp: add.assoc)
  have c3: "cstr_at ?b5 ?n3 = t"
    using t cstr_at_segment[of t "g @ NUL # i @ NUL # b @ [NUL]"] by (auto simp: add.assoc)
  have c4: "cstr_at ?b5 ?n4 = s"
    using s cstr_at_segment[of s "g @ NUL # i @ NUL # b @ NUL # t @ [NUL]"] by (auto simp: add.assoc)
  show ?thesis
    unfolding locate_def buf s1 s2 s3 s4 s5 option.case prod.case c0 c1 c2 c3 c4 by simp
qed

text \<open>When the captured text fills the array up to its last byte and holds no line
  separator, the first call leaves \<open>next\<close> at the end of the array and the second call
  leaves the array, whatever the text is.\<close>

lemma scan_outside: "length buf \<le> i \<Longrightarrow> scan buf i sep = None"
  by (subst scan.simps) simp

lemma locate_full_array:
  assumes plain: "\<forall>x \<in> set out. x \<noteq> NUL \<and> x \<noteq> LF" and full: "length buf = Suc (length out)"
  shows "map_option (snd \<circ> snd) (split (store buf out) 0 LF) = Some (length buf) \<and>
         locate (store buf out) status = None"
proof -
  have buf: "store buf out = [] @ out @ NUL # []" using full by (simp add: store_def)
  have s1: "split (store buf out) 0 LF = Some (out @ [NUL], 0, Suc (length out))"
    using split_stop[where xs = out and sep = LF and c = NUL and pre = "[]" and rest = "[]",
        OF plain] by (simp add: buf)
  have s2: "split (out @ [NUL]) (Suc (length out)) LF = None"
    by (simp add: split_def scan_outside)
  show ?thesis unfolding locate_def s1 option.case prod.case s2 using full by simp
qed

text \<open>
  Claim C10 fails on the code.  The metadata directory has a path of 307 bytes, of which
  \<open>readp\<close> stores the first 255 and the terminator in \<open>rpbuf[255]\<close>.  The first \<open>split\<close>
  finds no line separator, stops at the terminator and leaves \<open>next\<close> at offset 256,
  one past the array of 256 bytes; the second \<open>split\<close> reads \<open>**next\<close> there.
\<close>

theorem split_leaves_rpbuf:
  "fst (readp long_gitdir rev_parse False 256) = 0 \<and>
   length (rpbuf_of long_gitdir) = 256 \<and>
   map_option (snd \<circ> snd) (split (rpbuf_of long_gitdir) 0 LF) = Some 256 \<and>
   locate (rpbuf_of long_gitdir) 0 = None \<and>
   resolve long_gitdir = Fault \<and>
   git_section long_gitdir initial = None"
  by code_simp

section \<open>The progress suffix\<close>

text \<open>In every metadata directory with a \<open>rebase-merge\<close> subdirectory, line 303 leaves
  the empty string in \<open>r\<close>.\<close>

lemma rebase_merge_tag_empty:
  "isdir w (tpath git ''/rebase-merge'') \<Longrightarrow> progress (fst (detect w git ssha)) = Some []"
  by (simp add: detect_rebase_merge rebase_merge_def progress_def no_op_def)

text \<open>
  Claim C4 fails on the code.  In a metadata directory with a \<open>rebase-merge\<close>
  subdirectory whose \<open>msgnum\<close> and \<open>end\<close> files hold 3 and 7, both values are captured,
  but the branch sets no tag: \<open>r\<close> is NULL and is the first variadic argument of
  \<open>strcatv\<close>, which stops there.  \<open>r\<close> becomes the empty string and the prompt shows the
  branch name alone.  The test \<open>step && total\<close> is on pointers that \<open>readf\<close> never leaves
  NULL: a \<open>rebase-apply\<close> directory without its \<open>next\<close> and \<open>last\<close> files gets the
  suffix of two empty strings.
\<close>

theorem rebase_merge_progress_lost:
  "v_step (fst (detect rebasing ''.git'' (Some ''abc1234''))) = Some ''3'' \<and>
   v_total (fst (detect rebasing ''.git'' (Some ''abc1234''))) = Some ''7'' \<and>
   progress (fst (detect rebasing ''.git'' (Some ''abc1234''))) = Some [] \<and>
   map_option (stored \<circ> fst) (git_section rebasing initial)
     = Some (csi_fg @ ''0'' @ csi_bg @ ''148'' @ csi_end @ ''main'') \<and>
   progress (fst (detect applying_empty ''.git'' (Some ''abc1234''))) = Some ''|AM/REBASE /''"
  by code_simp

section \<open>Upstream divergence\<close>

lemma digit_cases: "d < 10 \<Longrightarrow> d \<in> {0, 1, 2, 3, 4, 5, 6, 7, 8, 9 :: nat}"
  by auto

lemma digit_plain:
  "d < 10 \<Longrightarrow> digit d \<noteq> NUL \<and> digit d \<noteq> TAB \<and> (digit d = CHR ''0'') = (d = 0)"
  using digit_cases[of d] by (auto simp: digit_def)

lemma dec_plain: "\<forall>x \<in> set (dec n). x \<noteq> NUL \<and> x \<noteq> TAB"
proof (induction n rule: dec.induct)
  case (1 n)
  show ?case
  proof (cases "n < 10")
    case True
    then show ?thesis using digit_plain[of n] by (subst dec.simps) simp
  next
    case False
    have "n mod 10 < 10" by simp
    then show ?thesis using False 1 digit_plain[of "n mod 10"] by (subst dec.simps) auto
  qed
qed

lemma dec_not_empty: "dec n \<noteq> []"
  by (subst dec.simps) simp

lemma dec_zero: "(dec n = ''0'') = (n = 0)"
proof (cases "n < 10")
  case True
  then show ?thesis using digit_plain[of n] by (subst dec.simps) simp
next
  case False
  have "length (dec n) = Suc (length (dec (n div 10)))" using False by (subst dec.simps) simp
  then have "length (dec n) \<noteq> 1" using dec_not_empty[of "n div 10"] by simp
  then have "dec n \<noteq> ''0''" by auto
  then show ?thesis using False by simp
qed

lemma sep_unique:
  "s \<notin> set xs \<Longrightarrow> s \<notin> set xs' \<Longrightarrow> xs @ s # ys = xs' @ s # ys' \<Longrightarrow> xs = xs' \<and> ys = ys'"
proof (induction xs arbitrary: xs')
  case Nil
  then show ?case by (cases xs') auto
next
  case (Cons x xs)
  then show ?case by (cases xs') auto
qed

lemma counts_eq:
  "(dec b @ TAB # dec a = [CHR ''0'', TAB, CHR ''0'']) = (b = 0 \<and> a = 0)"
proof -
  have "TAB \<notin> set (dec b)" using dec_plain[of b] by auto
  then have "(dec b @ TAB # dec a = ''0'' @ TAB # ''0'') = (dec b = ''0'' \<and> dec a = ''0'')"
    using sep_unique[of TAB "dec b" "''0''" "dec a" "''0''"] by auto
  then show ?thesis by (simp add: dec_zero)
qed

text \<open>On two counts separated by a tab, both \<open>split\<close> calls stay in the array and the
  mark is the one of the classification.\<close>

lemma upstream_mark_counts:
  "upstream_mark (store tmp (dec b @ TAB # dec a)) = divergence_mark (classify b a)"
proof -
  let ?rest = "drop (Suc (length (dec b @ TAB # dec a))) tmp"
  let ?buf = "store tmp (dec b @ TAB # dec a)"
  have pb: "\<forall>x \<in> set (dec b). x \<noteq> NUL \<and> x \<noteq> TAB" by (rule dec_plain)
  have pa: "\<forall>x \<in> set (dec a). x \<noteq> NUL \<and> x \<noteq> TAB" by (rule dec_plain)
  have buf: "?buf = [] @ dec b @ TAB # (dec a @ NUL # ?rest)" by (simp add: store_def)
  have whole: "cstr_at ?buf 0 = dec b @ TAB # dec a"
    using pa pb cstr_at_segment[of "dec b @ TAB # dec a" "[]" ?rest] by (auto simp: store_def)
  have s1: "split ?buf 0 TAB = Some (dec b @ NUL # dec a @ NUL # ?rest, 0, Suc (length (dec b)))"
    using split_stop[where xs = "dec b" and sep = TAB and c = TAB and pre = "[]"
        and rest = "dec a @ NUL # ?rest", OF pb] by (simp add: buf)
  have s2: "split (dec b @ NUL # dec a @ NUL # ?rest) (Suc (length (dec b))) TAB
            = Some (dec b @ NUL # dec a @ NUL # ?rest, Suc (length (dec b)),
                    Suc (Suc (length (dec b)) + length (dec a)))"
    using split_stop[where xs = "dec a" and sep = TAB and c = NUL and pre = "dec b @ [NUL]"
        and rest = ?rest, OF pa] by simp
  have r: "cstr_at (dec b @ NUL # dec a @ NUL # ?rest) 0 = dec b"
    using pb cstr_at_segment[of "dec b" "[]" "dec a @ NUL # ?rest"] by auto
  have l: "cstr_at (dec b @ NUL # dec a @ NUL # ?rest) (Suc (length (dec b))) = dec a"
    using pa cstr_at_segment[of "dec a" "dec b @ [NUL]" ?rest] by auto
  show ?thesis
    unfolding upstream_mark_def whole counts_eq s1 s2 option.case prod.case r l dec_zero
    by (simp add: classify_def)
qed

lemma classify_mark: "\<exists>p. divergence_mark (classify b a) = Some p"
  by (simp add: classify_def)

text \<open>
  Claim C3.  When the upstream count command fails, \<open>p\<close> stays NULL: no upstream.  When
  it succeeds and the captured text is the two counts \<open>behind\<close> and \<open>ahead\<close> in decimal
  with a tab between them, \<open>p\<close> is the mark of \<open>InSync\<close> when both are zero, of \<open>Ahead\<close>
  when \<open>behind\<close> is zero, of \<open>Behind\<close> when \<open>ahead\<close> is zero and of \<open>Diverged\<close> otherwise,
  whatever the array \<open>tmp\<close> held before.
\<close>

theorem upstream_divergence:
  "(fst (readp w upstream True 256) \<noteq> 0 \<longrightarrow>
      upstream_probe w tmp = Some (divergence_mark NoUpstream)) \<and>
   (readp w upstream True 256 = (0, dec behind @ TAB # dec ahead) \<longrightarrow>
      upstream_probe w tmp = Some (divergence_mark (classify behind ahead)))"
proof -
  obtain p where p: "divergence_mark (classify behind ahead) = Some p"
    using classify_mark by blast
  then have "upstream_mark (store tmp (dec behind @ TAB # dec ahead)) = Some p"
    by (simp add: upstream_mark_counts)
  then show ?thesis using p by (simp add: upstream_probe_def)
qed

text \<open>The theorem on the four outputs \<open>0 0\<close>, \<open>0 3\<close>, \<open>2 0\<close> and \<open>2 3\<close> (a tab between
  the counts, a line separator behind them) and on a failing command.\<close>

theorem upstream_divergence_witness:
  "upstream_probe (tracking ''0'' ''0'') stale
     = Some (divergence_mark InSync) \<and>
   upstream_probe (tracking ''0'' ''3'') stale
     = Some (divergence_mark Ahead) \<and>
   upstream_probe (tracking ''2'' ''0'') stale
     = Some (divergence_mark Behind) \<and>
   upstream_probe (tracking ''2'' ''3'') stale
     = Some (divergence_mark Diverged) \<and>
   upstream_probe unborn stale = Some (divergence_mark NoUpstream)"
proof -
  have a: "readp (tracking ''0'' ''0'') upstream True 256
           = (0, dec 0 @ TAB # dec 0)"
    by code_simp
  have b: "readp (tracking ''0'' ''3'') upstream True 256
           = (0, dec 0 @ TAB # dec 3)"
    by code_simp
  have c: "readp (tracking ''2'' ''0'') upstream True 256
           = (0, dec 2 @ TAB # dec 0)"
    by code_simp
  have d: "readp (tracking ''2'' ''3'') upstream True 256
           = (0, dec 2 @ TAB # dec 3)"
    by code_simp
  have e: "fst (readp unborn upstream True 256) \<noteq> 0"
    by code_simp
  show ?thesis
    using upstream_divergence[of "tracking ''0'' ''0''"
        stale 0 0]
      upstream_divergence[of "tracking ''0'' ''3''"
        stale 0 3]
      upstream_divergence[of "tracking ''2'' ''0''"
        stale 2 0]
      upstream_divergence[of "tracking ''2'' ''3''"
        stale 2 3]
      upstream_divergence[of unborn stale 0 0]
      a b c d e
    by (simp add: classify_def)
qed

section \<open>Index state and container overrides\<close>

text \<open>What a present summary is made of.\<close>

lemma resolve_present:
  assumes "resolve w = Present s"
  obtains l m ev' where
    "locate (rpbuf_of w) (fst (readp w rev_parse False 256)) = Some l"
    "overrides w l (strip_heads (v_b (fst (detect w (f_git l) (f_ssha l))))) = Some (m, ev')"
    "s_loc s = l" "s_marks s = m"
    "s_r s = progress (fst (detect w (f_git l) (f_ssha l)))"
    "s_detached s = v_detached (fst (detect w (f_git l) (f_ssha l)))"
    "s_events s = Exec rev_parse # snd (detect w (f_git l) (f_ssha l)) @ ev'"
  using assms unfolding resolve_def Let_def
  by (auto split: if_splits option.splits prod.splits)

lemma locate_ssha: "locate buf status = Some l \<Longrightarrow> (f_ssha l = None) = (status \<noteq> 0)"
  by (auto simp: locate_def split: option.splits prod.splits if_splits)

lemma overrides_worktree:
  "overrides w l b = Some (m, ev) \<Longrightarrow> f_inside l \<noteq> ''true'' \<Longrightarrow> f_intree l = ''true'' \<Longrightarrow>
   m_i m = (if fst (readp w diff_cached False 256) \<noteq> 0 then Some ''+''
            else if f_ssha l = None then Some ''#'' else None)"
  by (auto simp: overrides_def worktree_def Let_def split: option.splits)

text \<open>
  Claim C5.  In a resolution inside a work tree and not inside the metadata directory,
  \<open>i\<close> is the mark of \<open>Staged\<close> when the quiet cached diff exits non-zero; otherwise
  the mark of \<open>NoCommitsYet\<close> when no short hash of HEAD was obtained, which is when the
  location probe exited non-zero; otherwise that of \<open>Clean\<close>.
\<close>

theorem index_state_rule:
  "resolve w = Present s \<Longrightarrow> f_inside (s_loc s) \<noteq> ''true'' \<Longrightarrow> f_intree (s_loc s) = ''true'' \<Longrightarrow>
   m_i (s_marks s) =
     index_mark (if fst (readp w diff_cached False 256) \<noteq> 0 then Staged
                 else if f_ssha (s_loc s) = None then NoCommitsYet else Clean) \<and>
   (f_ssha (s_loc s) = None) = (fst (readp w rev_parse False 256) \<noteq> 0)"
proof -
  assume r: "resolve w = Present s" and i: "f_inside (s_loc s) \<noteq> ''true''"
    and t: "f_intree (s_loc s) = ''true''"
  from r obtain l m ev' where
    l: "locate (rpbuf_of w) (fst (readp w rev_parse False 256)) = Some l"
    and m: "overrides w l (strip_heads (v_b (fst (detect w (f_git l) (f_ssha l))))) = Some (m, ev')"
    and s: "s_loc s = l" "s_marks s = m"
    by (rule resolve_present)
  show ?thesis using overrides_worktree[OF m] locate_ssha[OF l] i t s by simp
qed

text \<open>The theorem in a repository without commits and with nothing staged.\<close>

theorem index_state_rule_witness:
  "resolve unborn = Present unborn_summary \<and>
   f_inside (s_loc unborn_summary) \<noteq> ''true'' \<and>
   f_intree (s_loc unborn_summary) = ''true'' \<and>
   fst (readp unborn diff_cached False 256) = 0 \<and>
   fst (readp unborn rev_parse False 256) = 128 \<and>
   m_i (s_marks unborn_summary) = index_mark NoCommitsYet"
proof -
  have r: "resolve unborn = Present unborn_summary" by code_simp
  have i: "f_inside (s_loc unborn_summary) \<noteq> ''true''" by (simp add: unborn_summary_def)
  have t: "f_intree (s_loc unborn_summary) = ''true''" by (simp add: unborn_summary_def)
  have d: "fst (readp unborn diff_cached False 256) = 0" by code_simp
  have p: "fst (readp unborn rev_parse False 256) = 128" by code_simp
  show ?thesis using index_state_rule[OF r i t] r i t d p by simp
qed

text \<open>The only commands that lines 246 to 296 run are \<open>symbolic-ref\<close> and \<open>describe\<close>.\<close>

lemma execs_rebase_merge: "Exec c \<notin> set (snd (rebase_merge w git))"
  by (simp add: rebase_merge_def)

lemma execs_rebase_apply: "Exec c \<notin> set (snd (rebase_apply w git))"
  by (simp add: rebase_apply_def Let_def)

lemma execs_marker_chain: "Exec c \<notin> set (snd (marker_chain w git))"
  by (simp add: marker_chain_def execs_rebase_apply)

lemma execs_head_label:
  "Exec c \<in> set (snd (snd (head_label w git ssha))) \<Longrightarrow> c = read_head \<or> c = describe"
  by (auto simp: head_label_def Let_def split: if_splits)

lemma execs_detect:
  "Exec c \<in> set (snd (detect w git ssha)) \<Longrightarrow> c = read_head \<or> c = describe"
  using execs_head_label[of c w git ssha]
  by (auto simp: detect_def Let_def execs_rebase_merge execs_marker_chain
      split: if_splits prod.splits)

lemma probes_differ:
  "diff \<noteq> rev_parse" "diff \<noteq> read_head" "diff \<noteq> describe"
  "diff_cached \<noteq> rev_parse" "diff_cached \<noteq> read_head" "diff_cached \<noteq> describe"
  "check_stash \<noteq> rev_parse" "check_stash \<noteq> read_head" "check_stash \<noteq> describe"
  "upstream \<noteq> rev_parse" "upstream \<noteq> read_head" "upstream \<noteq> describe"
  by (simp_all add: diff_def diff_cached_def check_stash_def upstream_def rev_parse_def
      read_head_def describe_def)

lemma overrides_inside:
  "overrides w l b = Some (m, ev) \<Longrightarrow> f_inside l = ''true'' \<Longrightarrow>
   ev = [] \<and> m_w m = None \<and> m_i m = None \<and> m_s m = None \<and> m_p m = None \<and>
   (if f_bare l = ''true'' then m_c m = Some ''BARE:'' \<and> m_b m = b
    else m_c m = None \<and> m_b m = Some ''GIT_DIR!'')"
  by (auto simp: overrides_def split: if_splits)

lemma render_inside:
  "m_w (s_marks s) = None \<Longrightarrow> m_i (s_marks s) = None \<Longrightarrow> m_s (s_marks s) = None \<Longrightarrow>
   m_p (s_marks s) = None \<Longrightarrow>
   render st s =
     append (append (append (section_c st (fg_of (s_detached s)) (bg_of (s_detached s)))
                       [m_c (s_marks s)]) [m_b (s_marks s)]) [s_r s]"
  by (cases "m_c (s_marks s)"; cases "m_b (s_marks s)"; cases "s_r s")
     (simp_all add: render_def Let_def)

text \<open>
  Claim C6.  When the location probe reports the working directory inside the metadata
  directory: for a bare repository \<open>c\<close> is the tag \<open>BARE:\<close>, \<open>b\<close> keeps the resolved
  head label, and the tag is appended to the prompt right before the label; otherwise
  \<open>b\<close> is replaced by the marker \<open>GIT_DIR!\<close>.  In both cases the work-tree probes are
  skipped: \<open>w\<close>, \<open>i\<close>, \<open>s\<close> and \<open>p\<close> stay NULL and none of the four commands is run.
\<close>

theorem container_overrides:
  "resolve w = Present s \<Longrightarrow> f_inside (s_loc s) = ''true'' \<Longrightarrow>
   (if f_bare (s_loc s) = ''true''
    then m_c (s_marks s) = Some ''BARE:'' \<and>
         m_b (s_marks s)
           = strip_heads (v_b (fst (detect w (f_git (s_loc s)) (f_ssha (s_loc s))))) \<and>
         render st s =
           append (append (append (section_c st (fg_of (s_detached s)) (bg_of (s_detached s)))
                             [Some ''BARE:'']) [m_b (s_marks s)]) [s_r s]
    else m_c (s_marks s) = None \<and> m_b (s_marks s) = Some ''GIT_DIR!'' \<and>
         render st s =
           append (append (section_c st (fg_of (s_detached s)) (bg_of (s_detached s)))
                     [Some ''GIT_DIR!'']) [s_r s]) \<and>
   m_w (s_marks s) = None \<and> m_i (s_marks s) = None \<and> m_s (s_marks s) = None \<and>
   m_p (s_marks s) = None \<and>
   Exec diff \<notin> set (s_events s) \<and> Exec diff_cached \<notin> set (s_events s) \<and>
   Exec check_stash \<notin> set (s_events s) \<and> Exec upstream \<notin> set (s_events s)"
proof -
  assume r: "resolve w = Present s" and i: "f_inside (s_loc s) = ''true''"
  from r obtain l m ev' where
    m: "overrides w l (strip_heads (v_b (fst (detect w (f_git l) (f_ssha l))))) = Some (m, ev')"
    and s: "s_loc s = l" "s_marks s = m"
    and e: "s_events s = Exec rev_parse # snd (detect w (f_git l) (f_ssha l)) @ ev'"
    by (rule resolve_present)
  have i': "f_inside l = ''true''" using i s by simp
  note o = overrides_inside[OF m i']
  have marks: "m_w (s_marks s) = None" "m_i (s_marks s) = None" "m_s (s_marks s) = None"
    "m_p (s_marks s) = None"
    using o s by simp_all
  have ev: "s_events s = Exec rev_parse # snd (detect w (f_git l) (f_ssha l))"
    using o e by simp
  have x: "Exec c \<notin> set (s_events s)"
    if "c \<noteq> rev_parse" "c \<noteq> read_head" "c \<noteq> describe" for c
    using that execs_detect[of c w "f_git l" "f_ssha l"] ev by auto
  have execs: "Exec diff \<notin> set (s_events s)" "Exec diff_cached \<notin> set (s_events s)"
    "Exec check_stash \<notin> set (s_events s)" "Exec upstream \<notin> set (s_events s)"
    by (simp_all add: x probes_differ)
  have labels: "if f_bare (s_loc s) = ''true''
    then m_c (s_marks s) = Some ''BARE:'' \<and>
         m_b (s_marks s) = strip_heads (v_b (fst (detect w (f_git (s_loc s)) (f_ssha (s_loc s)))))
    else m_c (s_marks s) = None \<and> m_b (s_marks s) = Some ''GIT_DIR!''"
    using o s by (simp split: if_splits)
  show ?thesis
  proof (cases "f_bare (s_loc s) = ''true''")
    case True
    then show ?thesis using labels marks execs render_inside[OF marks, of st] by simp
  next
    case False
    then show ?thesis using labels marks execs render_inside[OF marks, of st] by simp
  qed
qed

text \<open>The theorem in the metadata directory of a bare and of a normal repository.\<close>

theorem container_overrides_witness:
  "resolve in_bare = Present in_bare_summary \<and>
   f_inside (s_loc in_bare_summary) = ''true'' \<and> f_bare (s_loc in_bare_summary) = ''true'' \<and>
   m_c (s_marks in_bare_summary) = Some ''BARE:'' \<and>
   m_b (s_marks in_bare_summary) = Some ''main'' \<and>
   resolve in_gitdir = Present in_gitdir_summary \<and>
   f_inside (s_loc in_gitdir_summary) = ''true'' \<and> f_bare (s_loc in_gitdir_summary) = ''false'' \<and>
   m_b (s_marks in_gitdir_summary) = Some ''GIT_DIR!'' \<and>
   Exec diff \<notin> set (s_events in_gitdir_summary)"
proof -
  have a: "resolve in_bare = Present in_bare_summary" by code_simp
  have b: "f_inside (s_loc in_bare_summary) = ''true''" by (simp add: in_bare_summary_def)
  have c: "resolve in_gitdir = Present in_gitdir_summary" by code_simp
  have d: "f_inside (s_loc in_gitdir_summary) = ''true''" by (simp add: in_gitdir_summary_def)
  have e: "f_bare (s_loc in_bare_summary) = ''true''" by (simp add: in_bare_summary_def)
  have f: "f_bare (s_loc in_gitdir_summary) = ''false''" by (simp add: in_gitdir_summary_def)
  have g: "m_b (s_marks in_bare_summary) = Some ''main''" by (simp add: in_bare_summary_def)
  show ?thesis
    using container_overrides[OF a b, of initial] container_overrides[OF c d, of initial]
      a b c d e f g
    by simp
qed

end
